theory Spec2Isabelle
  imports Complex_Main
begin

section \<open>KeyboardManager: the static key tables\<close>

text \<open>
  \<^verbatim>\<open>keyboardManager.d.ts\<close> declares the static member \<^verbatim>\<open>MOVEMENT_KEYS\<close> as an object
  type whose property types are tuples of string literals. The table is kept as an
  association list in declaration order; key codes and directions stay strings, as in
  the declaration.
\<close>

definition MOVEMENT_KEYS :: "(string \<times> string list) list" where
  "MOVEMENT_KEYS =
    [(''w'', [''up'']),
     (''a'', [''left'']),
     (''s'', [''down'']),
     (''d'', [''right'']),
     (''W'', [''up'']),
     (''A'', [''left'']),
     (''S'', [''down'']),
     (''D'', [''right'']),
     (''ArrowUp'', [''up'']),
     (''ArrowRight'', [''right'']),
     (''ArrowDown'', [''down'']),
     (''ArrowLeft'', [''left'']),
     (''Numpad1'', [''down'', ''left'']),
     (''Numpad2'', [''down'']),
     (''Numpad3'', [''down'', ''right'']),
     (''Numpad4'', [''left'']),
     (''Numpad6'', [''right'']),
     (''Numpad7'', [''up'', ''left'']),
     (''Numpad8'', [''up'']),
     (''Numpad9'', [''up'', ''right''])]"

text \<open>The four directions a movement key can stand for.\<close>

definition directions :: "string set" where
  "directions = {''up'', ''down'', ''left'', ''right''}"

text \<open>The diagonal keys of the numeric pad.\<close>

definition diagonal_keys :: "string list" where
  "diagonal_keys = [''Numpad1'', ''Numpad3'', ''Numpad7'', ''Numpad9'']"

text \<open>The movement keys that are not diagonal: letters, arrows, straight numpad keys.\<close>

definition straight_keys :: "string list" where
  "straight_keys =
    [''w'', ''a'', ''s'', ''d'', ''W'', ''A'', ''S'', ''D'',
     ''ArrowUp'', ''ArrowRight'', ''ArrowDown'', ''ArrowLeft'',
     ''Numpad2'', ''Numpad4'', ''Numpad6'', ''Numpad8'']"

section \<open>Configured document classes\<close>

text \<open>
  The type of \<^verbatim>\<open>metadata.name\<close> of a document constructor: a string literal type for a
  concrete document class, or plain \<^verbatim>\<open>string\<close>, which is all that the constraint
  \<^verbatim>\<open>DocumentConstructor\<close> demands.
\<close>

datatype name_type = Name_literal string | Name_string

record Metadata =
  name :: name_type

text \<open>A constructor type such as \<^verbatim>\<open>typeof Actor\<close>: the class it belongs to and its metadata.\<close>

record DocumentConstructor =
  class_name :: string
  metadata :: Metadata

text \<open>
  An interface is the map from its property names to their types. The four global
  configuration interfaces are declared with no property:
  \<^verbatim>\<open>interface DocumentClassConfig {}\<close>, \<^verbatim>\<open>interface DataConfig {}\<close>,
  \<^verbatim>\<open>interface SourceConfig {}\<close>, \<^verbatim>\<open>interface FlagConfig {}\<close>.
\<close>

definition DocumentClassConfig :: "string \<rightharpoonup> DocumentConstructor" where
  "DocumentClassConfig = Map.empty"

definition DataConfig :: "string \<rightharpoonup> 'ty" where
  "DataConfig = Map.empty"

definition SourceConfig :: "string \<rightharpoonup> 'ty" where
  "SourceConfig = Map.empty"

definition FlagConfig :: "string \<rightharpoonup> 'ty" where
  "FlagConfig = Map.empty"

text \<open>
  Declaration merging: a consumer's \<^verbatim>\<open>declare global { interface I { ... } }\<close> adds its
  properties to the interface declared here. A property that both declarations have
  keeps the type of the first declaration; when the two types differ the compiler also
  reports error TS2717 at the later one, which \<open>TS2717\<close> tells for each property name.
\<close>

definition merge_declaration :: "(string \<rightharpoonup> 'ty) \<Rightarrow> (string \<rightharpoonup> 'ty) \<Rightarrow> (string \<rightharpoonup> 'ty)" where
  "merge_declaration declared added = added ++ declared"

definition TS2717 :: "(string \<rightharpoonup> 'ty) \<Rightarrow> (string \<rightharpoonup> 'ty) \<Rightarrow> string \<Rightarrow> bool" where
  "TS2717 declared added p =
    (case declared p of
       None \<Rightarrow> False
     | Some t \<Rightarrow> (case added p of None \<Rightarrow> False | Some t' \<Rightarrow> t' \<noteq> t))"

text \<open>
  \<^verbatim>\<open>N extends keyof I\<close> for an interface \<open>I\<close> with named properties only: a literal
  name is assignable to the union of the keys when it is one of them, and \<^verbatim>\<open>string\<close>
  never is.
\<close>

fun extends_keyof :: "name_type \<Rightarrow> (string \<rightharpoonup> 'ty) \<Rightarrow> bool" where
  "extends_keyof (Name_literal n) I = (I n \<noteq> None)"
| "extends_keyof Name_string I = False"

text \<open>The indexed access type \<^verbatim>\<open>I[N]\<close>.\<close>

fun indexed_access :: "(string \<rightharpoonup> 'ty) \<Rightarrow> name_type \<Rightarrow> 'ty option" where
  "indexed_access I (Name_literal n) = I n"
| "indexed_access I Name_string = None"

text \<open>
  \<^verbatim>\<open>
  type ConfiguredDocumentClassOrDefault<Fallback extends DocumentConstructor> =
    Fallback['metadata']['name'] extends keyof DocumentClassConfig
      ? DocumentClassConfig[Fallback['metadata']['name']]
      : Fallback;
  \<close>
  The first argument is the interface \<^verbatim>\<open>DocumentClassConfig\<close> as the consumer's program
  sees it, that is after merging.
\<close>

definition ConfiguredDocumentClassOrDefault ::
    "(string \<rightharpoonup> DocumentConstructor) \<Rightarrow> DocumentConstructor \<Rightarrow> DocumentConstructor" where
  "ConfiguredDocumentClassOrDefault config Fallback =
    (if extends_keyof (name (metadata Fallback)) config
     then the (indexed_access config (name (metadata Fallback)))
     else Fallback)"

section \<open>WallData: constructor calls against the declared constructor data\<close>

text \<open>
  The test file for \<^verbatim>\<open>foundry.data.WallData\<close> calls the constructor on literal
  arguments. These are the argument expressions it uses: literals, and members of the
  enumerations of \<^verbatim>\<open>foundry.CONST\<close>, written \<^verbatim>\<open>foundry.CONST.E.M\<close>. A numeric literal
  denotes a real number.
\<close>

datatype expression =
    Undefined_literal
  | Null_literal
  | Number_literal real
  | String_literal string
  | Array_literal "expression list"
  | Object_literal "(string \<times> expression) list"
  | CONST_member string string

text \<open>The types that the constructor data is made of.\<close>

datatype ts_type =
    T_number
  | T_string
  | T_null
  | T_undefined
  | T_CONST string
  | T_tuple "ts_type list"
  | T_record
  | T_union "ts_type list"

text \<open>
  The enumerations of \<^verbatim>\<open>foundry.CONST\<close> are declared in the constants module of the
  repository, and no value of theirs occurs in the declarations and tests treated here.
  They are a parameter: each enumeration name with its members, and each member with its
  value, a number or a string.
\<close>

datatype const_value = Number_value real | String_value string

type_synonym foundry_CONST = "(string \<times> (string \<times> const_value) list) list"

definition enumeration :: "foundry_CONST \<Rightarrow> string \<Rightarrow> (string \<times> const_value) list" where
  "enumeration K E = (case map_of K E of None \<Rightarrow> [] | Some members \<Rightarrow> members)"

text \<open>
  Assignability of an argument expression to a type. \<open>T_CONST E\<close> is the union of the
  literal types of the values of enumeration \<open>E\<close>; a member \<^verbatim>\<open>foundry.CONST.E.M\<close> has the
  literal type of its value, and no type when the enumeration has no such member.
  \<open>T_record\<close> is an object type with arbitrary properties.
\<close>

fun assignable :: "foundry_CONST \<Rightarrow> expression \<Rightarrow> ts_type \<Rightarrow> bool" where
  "assignable K e (T_union ts) = list_ex (assignable K e) ts"
| "assignable K (Array_literal es) (T_tuple ts) = list_all2 (assignable K) es ts"
| "assignable K (Number_literal n) T_number = True"
| "assignable K (Number_literal n) (T_CONST E) = (Number_value n \<in> snd ` set (enumeration K E))"
| "assignable K (String_literal s) T_string = True"
| "assignable K (String_literal s) (T_CONST E) = (String_value s \<in> snd ` set (enumeration K E))"
| "assignable K (CONST_member E' m) T_number =
    (case map_of (enumeration K E') m of
       Some (Number_value n) \<Rightarrow> True
     | _ \<Rightarrow> False)"
| "assignable K (CONST_member E' m) T_string =
    (case map_of (enumeration K E') m of
       Some (String_value s) \<Rightarrow> True
     | _ \<Rightarrow> False)"
| "assignable K (CONST_member E' m) (T_CONST E) =
    (case map_of (enumeration K E') m of
       None \<Rightarrow> False
     | Some v \<Rightarrow> v \<in> snd ` set (enumeration K E))"
| "assignable K Null_literal T_null = True"
| "assignable K Undefined_literal T_undefined = True"
| "assignable K (Object_literal fs) T_record = True"
| "assignable K _ _ = False"

text \<open>An object type: each property with its name, whether it is optional, and its type.\<close>

type_synonym object_type = "(string \<times> bool \<times> ts_type) list"

text \<open>
  An object literal is assignable to an object type when every required property is
  supplied and every supplied property is declared and has a value of its type.
  Anything else than an object literal is not.
\<close>

fun assignable_object :: "foundry_CONST \<Rightarrow> expression \<Rightarrow> object_type \<Rightarrow> bool" where
  "assignable_object K (Object_literal fs) ps =
    (list_all (\<lambda>(p, optional, t). optional \<or> p \<in> fst ` set fs) ps
     \<and> list_all (\<lambda>(f, v). case map_of ps f of
                               None \<Rightarrow> False
                             | Some (optional, t) \<Rightarrow> assignable K v t) fs)"
| "assignable_object K _ ps = False"

text \<open>
  Modelled from the spec: the declaration of \<^verbatim>\<open>foundry.data.WallData\<close> and of its
  constructor data (only its test file is available). The properties and the tuple
  type of \<^verbatim>\<open>c\<close> are those of the spec's data model; \<^verbatim>\<open>c\<close> is the required one. Which
  enumeration each of \<^verbatim>\<open>move\<close>, \<^verbatim>\<open>sense\<close>, \<^verbatim>\<open>sound\<close>, \<^verbatim>\<open>dir\<close>, \<^verbatim>\<open>door\<close>, \<^verbatim>\<open>ds\<close> takes its
  values from, and that every property but \<^verbatim>\<open>c\<close> also takes \<^verbatim>\<open>null\<close> and \<^verbatim>\<open>undefined\<close>,
  is read off the test file. The type of \<^verbatim>\<open>flags\<close> is the one that holds while
  \<^verbatim>\<open>FlagConfig\<close> is the empty interface declared here: any object.
\<close>

definition WallDataConstructorData :: object_type where
  "WallDataConstructorData =
    [(''_id'', True, T_union [T_string, T_null, T_undefined]),
     (''c'', False, T_tuple [T_number, T_number, T_number, T_number]),
     (''move'', True, T_union [T_CONST ''WALL_MOVEMENT_TYPES'', T_null, T_undefined]),
     (''sense'', True, T_union [T_CONST ''WALL_SENSE_TYPES'', T_null, T_undefined]),
     (''sound'', True, T_union [T_CONST ''WALL_SENSE_TYPES'', T_null, T_undefined]),
     (''dir'', True, T_union [T_CONST ''WALL_DIRECTIONS'', T_null, T_undefined]),
     (''door'', True, T_union [T_CONST ''WALL_DOOR_TYPES'', T_null, T_undefined]),
     (''ds'', True, T_union [T_CONST ''WALL_DOOR_STATES'', T_null, T_undefined]),
     (''flags'', True, T_union [T_record, T_null, T_undefined])]"

text \<open>
  Modelled from the spec: the constructor of \<^verbatim>\<open>foundry.data.WallData\<close>, missing with the
  declaration. A call \<^verbatim>\<open>new foundry.data.WallData(data)\<close>, or with no argument (\<open>None\<close>),
  either has the type \<^verbatim>\<open>foundry.data.WallData\<close> or is a type error (\<open>None\<close>).
\<close>

definition new_WallData :: "foundry_CONST \<Rightarrow> expression option \<Rightarrow> string option" where
  "new_WallData K argument =
    (case argument of
       None \<Rightarrow> None
     | Some data \<Rightarrow>
         if assignable_object K data WallDataConstructorData
         then Some ''foundry.data.WallData'' else None)"

text \<open>
  The assertions of the test file: \<^verbatim>\<open>expectError(e)\<close> holds when \<open>e\<close> is a type error,
  \<^verbatim>\<open>expectType<T>(e)\<close> when \<open>e\<close> has the type \<open>T\<close>.
\<close>

definition expectError :: "string option \<Rightarrow> bool" where
  "expectError checked = (checked = None)"

definition expectType :: "string \<Rightarrow> string option \<Rightarrow> bool" where
  "expectType T checked = (checked = Some T)"

text \<open>The coordinates \<^verbatim>\<open>[10, 20, 30, 40]\<close> that the test file uses throughout.\<close>

definition coordinates :: expression where
  "coordinates =
    Array_literal [Number_literal 10, Number_literal 20, Number_literal 30, Number_literal 40]"

text \<open>
  The six enumerated fields of the constructor data, each with the enumeration of
  \<^verbatim>\<open>foundry.CONST\<close> that the test file draws its value from.
\<close>

definition enumerated_fields :: "(string \<times> string) list" where
  "enumerated_fields =
    [(''move'', ''WALL_MOVEMENT_TYPES''),
     (''sense'', ''WALL_SENSE_TYPES''),
     (''sound'', ''WALL_SENSE_TYPES''),
     (''dir'', ''WALL_DIRECTIONS''),
     (''door'', ''WALL_DOOR_TYPES''),
     (''ds'', ''WALL_DOOR_STATES'')]"

text \<open>
  An expression is a number when it is a numeric literal or a member of an enumeration
  whose value is a number.
\<close>

fun number_expression :: "foundry_CONST \<Rightarrow> expression \<Rightarrow> bool" where
  "number_expression K (Number_literal n) = True"
| "number_expression K (CONST_member E m) =
    (case map_of (enumeration K E) m of Some (Number_value n) \<Rightarrow> True | _ \<Rightarrow> False)"
| "number_expression K _ = False"

text \<open>
  The value of an expression that has a literal type: a numeric or string literal stands
  for itself, a member of an enumeration for its value; other expressions have none.
\<close>

fun literal_value :: "foundry_CONST \<Rightarrow> expression \<Rightarrow> const_value option" where
  "literal_value K (Number_literal n) = Some (Number_value n)"
| "literal_value K (String_literal s) = Some (String_value s)"
| "literal_value K (CONST_member E m) = map_of (enumeration K E) m"
| "literal_value K _ = None"

text \<open>
  One assignment of values to the enumerations, to run the checks on. The member names
  \<^verbatim>\<open>NORMAL\<close>, \<^verbatim>\<open>BOTH\<close>, \<^verbatim>\<open>NONE\<close> and \<^verbatim>\<open>CLOSED\<close> are those the test file refers to; the
  other names and all values stand for whatever \<^verbatim>\<open>foundry.CONST\<close> declares.
\<close>

definition example_CONST :: foundry_CONST where
  "example_CONST =
    [(''WALL_MOVEMENT_TYPES'', [(''NONE'', Number_value 0), (''NORMAL'', Number_value 1)]),
     (''WALL_SENSE_TYPES'',
        [(''NONE'', Number_value 0), (''NORMAL'', Number_value 1), (''LIMITED'', Number_value 2)]),
     (''WALL_DIRECTIONS'',
        [(''BOTH'', Number_value 0), (''LEFT'', Number_value 1), (''RIGHT'', Number_value 2)]),
     (''WALL_DOOR_TYPES'',
        [(''NONE'', Number_value 0), (''DOOR'', Number_value 1), (''SECRET'', Number_value 2)]),
     (''WALL_DOOR_STATES'',
        [(''CLOSED'', Number_value 0), (''OPEN'', Number_value 1), (''LOCKED'', Number_value 2)])]"

section \<open>Properties of the key tables\<close>

text \<open>
  Claim C9. Every key of \<^verbatim>\<open>KeyboardManager.MOVEMENT_KEYS\<close> maps to a non-empty list of
  directions taken from up, down, left and right. The keys that map to a list of two
  directions are exactly Numpad1, Numpad3, Numpad7 and Numpad9; every other movement key
  (w, a, s, d in both cases, the four arrow keys, Numpad2, Numpad4, Numpad6, Numpad8) maps
  to a single direction, and there are no further keys.
\<close>

theorem MOVEMENT_KEYS_directions:
  "(\<forall>(k, ds) \<in> set MOVEMENT_KEYS. ds \<noteq> [] \<and> set ds \<subseteq> directions)
   \<and> (\<forall>(k, ds) \<in> set MOVEMENT_KEYS. length ds = 2 \<longleftrightarrow> k \<in> set diagonal_keys)
   \<and> (\<forall>(k, ds) \<in> set MOVEMENT_KEYS. k \<notin> set diagonal_keys \<longrightarrow> length ds = 1)
   \<and> map fst (filter (\<lambda>(k, ds). length ds = 2) MOVEMENT_KEYS) = diagonal_keys
   \<and> map fst (filter (\<lambda>(k, ds). length ds = 1) MOVEMENT_KEYS) = straight_keys
   \<and> length MOVEMENT_KEYS = length diagonal_keys + length straight_keys"
  by (simp add: MOVEMENT_KEYS_def directions_def diagonal_keys_def straight_keys_def)

theorem MOVEMENT_KEYS_directions_witness:
  "(''Numpad7'', [''up'', ''left'']) \<in> set MOVEMENT_KEYS
   \<and> [''up'', ''left''] \<noteq> [] \<and> set [''up'', ''left''] \<subseteq> directions
   \<and> ''Numpad7'' \<in> set diagonal_keys
   \<and> (''ArrowDown'', [''down'']) \<in> set MOVEMENT_KEYS
   \<and> ''ArrowDown'' \<notin> set diagonal_keys \<and> length [''down''] = 1"
proof -
  have numpad7: "(''Numpad7'', [''up'', ''left'']) \<in> set MOVEMENT_KEYS"
    by (simp add: MOVEMENT_KEYS_def)
  have arrow: "(''ArrowDown'', [''down'']) \<in> set MOVEMENT_KEYS"
    by (simp add: MOVEMENT_KEYS_def)
  have not_diagonal: "''ArrowDown'' \<notin> set diagonal_keys"
    by (simp add: diagonal_keys_def)
  from MOVEMENT_KEYS_directions numpad7
  have "[''up'', ''left''] \<noteq> [] \<and> set [''up'', ''left''] \<subseteq> directions
        \<and> ''Numpad7'' \<in> set diagonal_keys"
    by fastforce
  moreover from MOVEMENT_KEYS_directions arrow not_diagonal
  have "length [''down''] = 1"
    by fastforce
  ultimately show ?thesis
    using numpad7 arrow not_diagonal by simp
qed

section \<open>Properties of the configured document classes\<close>

text \<open>
  Claim C4. For every document constructor \<open>F\<close> whose metadata name is \<open>N\<close>,
  \<^verbatim>\<open>ConfiguredDocumentClassOrDefault<F>\<close> is \<^verbatim>\<open>DocumentClassConfig[N]\<close> when \<open>N\<close> is a key of
  \<^verbatim>\<open>DocumentClassConfig\<close>, and \<open>F\<close> itself otherwise. The interfaces
  \<^verbatim>\<open>DocumentClassConfig\<close>, \<^verbatim>\<open>DataConfig\<close>, \<^verbatim>\<open>SourceConfig\<close> and \<^verbatim>\<open>FlagConfig\<close> are declared
  empty, so that merging a consumer's declaration into one of them yields exactly the
  consumer's properties; with no merged declaration every constructor keeps its own class.
\<close>

theorem ConfiguredDocumentClassOrDefault_cases:
  "(extends_keyof (name (metadata F)) config \<longrightarrow>
      Some (ConfiguredDocumentClassOrDefault config F) = indexed_access config (name (metadata F)))
   \<and> (\<forall>n C. name (metadata F) = Name_literal n \<and> config n = Some C \<longrightarrow>
      ConfiguredDocumentClassOrDefault config F = C)
   \<and> (\<not> extends_keyof (name (metadata F)) config \<longrightarrow>
      ConfiguredDocumentClassOrDefault config F = F)
   \<and> DocumentClassConfig = Map.empty
   \<and> (DataConfig :: string \<rightharpoonup> 'a) = Map.empty
   \<and> (SourceConfig :: string \<rightharpoonup> 'b) = Map.empty
   \<and> (FlagConfig :: string \<rightharpoonup> 'c) = Map.empty
   \<and> merge_declaration DocumentClassConfig added = added
   \<and> merge_declaration (DataConfig :: string \<rightharpoonup> 'a) data_added = data_added
   \<and> merge_declaration (SourceConfig :: string \<rightharpoonup> 'b) source_added = source_added
   \<and> merge_declaration (FlagConfig :: string \<rightharpoonup> 'c) flag_added = flag_added
   \<and> ConfiguredDocumentClassOrDefault DocumentClassConfig F = F"
proof -
  have keyed: "extends_keyof N config \<Longrightarrow> \<exists>C. indexed_access config N = Some C"
    for N and config :: "string \<rightharpoonup> DocumentConstructor"
    by (cases N) auto
  have none: "\<not> extends_keyof N DocumentClassConfig" for N
    by (cases N) (simp_all add: DocumentClassConfig_def)
  show ?thesis
    using keyed [of "name (metadata F)" config] none [of "name (metadata F)"]
    by (auto simp: ConfiguredDocumentClassOrDefault_def merge_declaration_def
        DocumentClassConfig_def DataConfig_def SourceConfig_def FlagConfig_def)
qed

text \<open>
  The example of the declaration's own comment: a consumer merges
  \<^verbatim>\<open>interface DocumentClassConfig { Actor: typeof MyActor }\<close>. Then \<^verbatim>\<open>typeof Actor\<close>
  resolves to \<^verbatim>\<open>typeof MyActor\<close> and \<^verbatim>\<open>typeof Item\<close> stays as it is.
\<close>

theorem ConfiguredDocumentClassOrDefault_cases_witness:
  "extends_keyof (Name_literal ''Actor'')
      (merge_declaration DocumentClassConfig
        [''Actor'' \<mapsto> \<lparr>class_name = ''MyActor'', metadata = \<lparr>name = Name_literal ''Actor''\<rparr>\<rparr>])
   \<and> ConfiguredDocumentClassOrDefault
      (merge_declaration DocumentClassConfig
        [''Actor'' \<mapsto> \<lparr>class_name = ''MyActor'', metadata = \<lparr>name = Name_literal ''Actor''\<rparr>\<rparr>])
      \<lparr>class_name = ''Actor'', metadata = \<lparr>name = Name_literal ''Actor''\<rparr>\<rparr>
     = \<lparr>class_name = ''MyActor'', metadata = \<lparr>name = Name_literal ''Actor''\<rparr>\<rparr>
   \<and> \<not> extends_keyof (Name_literal ''Item'')
      (merge_declaration DocumentClassConfig
        [''Actor'' \<mapsto> \<lparr>class_name = ''MyActor'', metadata = \<lparr>name = Name_literal ''Actor''\<rparr>\<rparr>])
   \<and> ConfiguredDocumentClassOrDefault
      (merge_declaration DocumentClassConfig
        [''Actor'' \<mapsto> \<lparr>class_name = ''MyActor'', metadata = \<lparr>name = Name_literal ''Actor''\<rparr>\<rparr>])
      \<lparr>class_name = ''Item'', metadata = \<lparr>name = Name_literal ''Item''\<rparr>\<rparr>
     = \<lparr>class_name = ''Item'', metadata = \<lparr>name = Name_literal ''Item''\<rparr>\<rparr>"
proof -
  let ?MyActor = "\<lparr>class_name = ''MyActor'', metadata = \<lparr>name = Name_literal ''Actor''\<rparr>\<rparr>"
  let ?Actor = "\<lparr>class_name = ''Actor'', metadata = \<lparr>name = Name_literal ''Actor''\<rparr>\<rparr>"
  let ?Item = "\<lparr>class_name = ''Item'', metadata = \<lparr>name = Name_literal ''Item''\<rparr>\<rparr>"
  let ?config = "merge_declaration DocumentClassConfig [''Actor'' \<mapsto> ?MyActor]"
  have config: "?config = [''Actor'' \<mapsto> ?MyActor]"
    by (simp add: merge_declaration_def DocumentClassConfig_def)
  have actor_keyed: "extends_keyof (name (metadata ?Actor)) ?config"
    by (simp add: config)
  have item_not_keyed: "\<not> extends_keyof (name (metadata ?Item)) ?config"
    by (simp add: config)
  from ConfiguredDocumentClassOrDefault_cases [of ?Actor ?config] actor_keyed
  have "Some (ConfiguredDocumentClassOrDefault ?config ?Actor)
        = indexed_access ?config (name (metadata ?Actor))"
    by blast
  then have actor: "ConfiguredDocumentClassOrDefault ?config ?Actor = ?MyActor"
    by (simp add: config)
  from ConfiguredDocumentClassOrDefault_cases [of ?Item ?config] item_not_keyed
  have item: "ConfiguredDocumentClassOrDefault ?config ?Item = ?Item"
    by blast
  from actor_keyed actor item_not_keyed item show ?thesis
    by simp
qed

text \<open>
  Merging keeps the type of a property that the interface already declares, and reports
  TS2717 when the added declaration gives it another type; merging into one of the empty
  interfaces never does.
\<close>

lemma merge_declaration_keeps_first:
  "(declared p = Some t \<longrightarrow> merge_declaration declared added p = Some t)
   \<and> (declared p = None \<longrightarrow> merge_declaration declared added p = added p)
   \<and> (TS2717 declared added p
        \<longleftrightarrow> (\<exists>t t'. declared p = Some t \<and> added p = Some t' \<and> t' \<noteq> t))
   \<and> \<not> TS2717 DocumentClassConfig added' p"
  by (auto simp: merge_declaration_def TS2717_def DocumentClassConfig_def map_add_def
      split: option.splits)

section \<open>Properties of WallData construction\<close>

lemma assignable_T_number:
  "assignable K e T_number = number_expression K e"
  by (cases e) (simp_all split: option.splits const_value.splits)

lemma assignable_T_CONST:
  "assignable K e (T_CONST E)
    = (case literal_value K e of None \<Rightarrow> False | Some v \<Rightarrow> v \<in> snd ` set (enumeration K E))"
  by (cases e) simp_all

lemma assignable_coordinates:
  "assignable K v (T_tuple [T_number, T_number, T_number, T_number])
    \<longleftrightarrow> (\<exists>es. v = Array_literal es \<and> length es = 4 \<and> (\<forall>e \<in> set es. number_expression K e))"
proof (cases v)
  case (Array_literal es)
  have "list_all2 (assignable K) es [T_number, T_number, T_number, T_number]
        \<longleftrightarrow> length es = 4 \<and> (\<forall>e \<in> set es. number_expression K e)"
    by (auto simp: list_all2_Cons2 assignable_T_number length_Suc_conv numeral_eq_Suc)
  with Array_literal show ?thesis
    by simp
qed simp_all

lemma assignable_enumerated:
  "assignable K v (T_union [T_CONST E, T_null, T_undefined])
    \<longleftrightarrow> v = Null_literal \<or> v = Undefined_literal
        \<or> (\<exists>x. literal_value K v = Some x \<and> x \<in> snd ` set (enumeration K E))"
  by (cases v) (auto simp: assignable_T_CONST split: option.splits)

lemma enumerated_field_type:
  assumes "(f, E) \<in> set enumerated_fields"
  shows "map_of WallDataConstructorData f
          = Some (True, T_union [T_CONST E, T_null, T_undefined])"
  using assms by (auto simp: enumerated_fields_def WallDataConstructorData_def)

lemma coordinates_type:
  "map_of WallDataConstructorData ''c''
    = Some (False, T_tuple [T_number, T_number, T_number, T_number])"
  by (simp add: WallDataConstructorData_def)



lemma assignable_WallDataConstructorData:
  "assignable_object K data WallDataConstructorData
    \<longleftrightarrow> (\<exists>fs. data = Object_literal fs \<and> ''c'' \<in> fst ` set fs
          \<and> (\<forall>(f, v) \<in> set fs. case map_of WallDataConstructorData f of
                                    None \<Rightarrow> False
                                  | Some (optional, t) \<Rightarrow> assignable K v t))"
proof (cases data)
  case (Object_literal fs)
  have "list_all (\<lambda>(p, optional, t). optional \<or> p \<in> fst ` set fs) WallDataConstructorData
        \<longleftrightarrow> ''c'' \<in> fst ` set fs"
    by (simp add: WallDataConstructorData_def)
  with Object_literal show ?thesis
    by (simp add: list_all_iff)
qed simp_all

lemma new_WallData_cases:
  "new_WallData K argument = None \<or> new_WallData K argument = Some ''foundry.data.WallData''"
  by (simp add: new_WallData_def split: option.splits)

lemma expectType_new_WallData:
  "expectType ''foundry.data.WallData'' (new_WallData K (Some data))
    \<longleftrightarrow> assignable_object K data WallDataConstructorData"
  by (simp add: expectType_def new_WallData_def)

lemma expectError_new_WallData:
  "expectError (new_WallData K (Some data))
    \<longleftrightarrow> \<not> assignable_object K data WallDataConstructorData"
  by (simp add: expectError_def new_WallData_def)

lemma supplied_property:
  assumes "assignable_object K (Object_literal fs) WallDataConstructorData"
    and "(f, v) \<in> set fs"
  shows "\<exists>optional t. map_of WallDataConstructorData f = Some (optional, t) \<and> assignable K v t"
proof -
  from assms(1)
  have "\<forall>(f, v) \<in> set fs. case map_of WallDataConstructorData f of
                              None \<Rightarrow> False
                            | Some (optional, t) \<Rightarrow> assignable K v t"
    by (simp add: assignable_WallDataConstructorData)
  with assms(2)
  have "case map_of WallDataConstructorData f of
          None \<Rightarrow> False
        | Some (optional, t) \<Rightarrow> assignable K v t"
    by blast
  then show ?thesis
    by (cases "map_of WallDataConstructorData f") auto
qed

lemma rejected_property:
  assumes "(f, v) \<in> set fs"
    and "map_of WallDataConstructorData f = Some (optional, t)"
    and "\<not> assignable K v t"
  shows "expectError (new_WallData K (Some (Object_literal fs)))"
  using assms supplied_property [of K fs f v]
  by (auto simp: expectError_new_WallData)



lemma flags_type:
  "map_of WallDataConstructorData ''flags'' = Some (True, T_union [T_record, T_null, T_undefined])"
  by (simp add: WallDataConstructorData_def)

lemma assignable_WallDataConstructorData_intro:
  assumes c: "''c'' \<in> fst ` set fs"
    and each: "\<And>f v. (f, v) \<in> set fs \<Longrightarrow>
      \<exists>optional t. map_of WallDataConstructorData f = Some (optional, t) \<and> assignable K v t"
  shows "assignable_object K (Object_literal fs) WallDataConstructorData"
proof -
  have "case p of (f, v) \<Rightarrow> (case map_of WallDataConstructorData f of
          None \<Rightarrow> False
        | Some (optional, t) \<Rightarrow> assignable K v t)"
    if "p \<in> set fs" for p
  proof (cases p)
    case (Pair f v)
    with that each [of f v] show ?thesis
      by auto
  qed
  then have "\<forall>p \<in> set fs. case p of (f, v) \<Rightarrow> (case map_of WallDataConstructorData f of
          None \<Rightarrow> False
        | Some (optional, t) \<Rightarrow> assignable K v t)"
    by (rule ballI)
  with c show ?thesis
    by (simp add: assignable_WallDataConstructorData)
qed

lemma well_supplied_accepted:
  assumes c: "''c'' \<in> fst ` set fs"
    and each: "\<forall>f v. (f, v) \<in> set fs \<longrightarrow>
      (f = ''c'' \<and> (\<exists>es. v = Array_literal es \<and> length es = 4
                        \<and> (\<forall>e \<in> set es. number_expression K e)))
      \<or> (\<exists>E x. (f, E) \<in> set enumerated_fields \<and> literal_value K v = Some x
                \<and> x \<in> snd ` set (enumeration K E))
      \<or> (f = ''flags'' \<and> (\<exists>properties. v = Object_literal properties))"
  shows "expectType ''foundry.data.WallData'' (new_WallData K (Some (Object_literal fs)))"
proof -
  have "\<exists>optional t. map_of WallDataConstructorData f = Some (optional, t) \<and> assignable K v t"
    if supplied: "(f, v) \<in> set fs" for f v
  proof -
    note each [rule_format, OF supplied]
    then show ?thesis
    proof (elim disjE)
      assume coordinates: "f = ''c'' \<and> (\<exists>es. v = Array_literal es \<and> length es = 4
                        \<and> (\<forall>e \<in> set es. number_expression K e))"
      then have "assignable K v (T_tuple [T_number, T_number, T_number, T_number])"
        by (simp only: assignable_coordinates)
      with coordinates coordinates_type show ?thesis
        by blast
    next
      assume "\<exists>E x. (f, E) \<in> set enumerated_fields \<and> literal_value K v = Some x
                \<and> x \<in> snd ` set (enumeration K E)"
      then obtain E x where field: "(f, E) \<in> set enumerated_fields"
        and drawn: "literal_value K v = Some x \<and> x \<in> snd ` set (enumeration K E)"
        by blast
      from drawn have "assignable K v (T_union [T_CONST E, T_null, T_undefined])"
        unfolding assignable_enumerated by (intro disjI2 exI [of _ x])
      with enumerated_field_type [OF field] show ?thesis
        by blast
    next
      assume "f = ''flags'' \<and> (\<exists>properties. v = Object_literal properties)"
      then obtain properties where flags: "f = ''flags''" "v = Object_literal properties"
        by blast
      have "assignable K (Object_literal properties) (T_union [T_record, T_null, T_undefined])"
        by simp
      with flags flags_type show ?thesis
        by blast
    qed
  qed
  with c have "assignable_object K (Object_literal fs) WallDataConstructorData"
    by (rule assignable_WallDataConstructorData_intro)
  then show ?thesis
    by (simp only: expectType_new_WallData)
qed

text \<open>
  Claim C1. Constructing \<^verbatim>\<open>foundry.data.WallData\<close> with no argument, with the empty
  object, or with \<^verbatim>\<open>c: [10, 20]\<close> is a type error; constructing it with
  \<^verbatim>\<open>c: [10, 20, 30, 40]\<close> type-checks and has the type \<^verbatim>\<open>foundry.data.WallData\<close>. In
  general: an argument that is not an object literal, an object literal that does not
  supply \<^verbatim>\<open>c\<close>, and one that supplies for \<^verbatim>\<open>c\<close> anything else than an array of exactly
  four numbers, are type errors, whatever else the literal supplies; an object literal that
  supplies \<^verbatim>\<open>c\<close> alone type-checks exactly when \<^verbatim>\<open>c\<close> is an array of four numbers, and so
  it does for any four numeric literals. This holds whatever the enumerations of
  \<^verbatim>\<open>foundry.CONST\<close> are.
\<close>

theorem WallData_requires_coordinates:
  "expectError (new_WallData K None)
   \<and> (\<forall>data. (\<forall>fs. data \<noteq> Object_literal fs) \<longrightarrow> expectError (new_WallData K (Some data)))
   \<and> (\<forall>fs. ''c'' \<notin> fst ` set fs \<longrightarrow> expectError (new_WallData K (Some (Object_literal fs))))
   \<and> (\<forall>fs v. (''c'', v) \<in> set fs \<and> (\<forall>es. v \<noteq> Array_literal es) \<longrightarrow>
        expectError (new_WallData K (Some (Object_literal fs))))
   \<and> (\<forall>fs es. (''c'', Array_literal es) \<in> set fs \<and> length es \<noteq> 4 \<longrightarrow>
        expectError (new_WallData K (Some (Object_literal fs))))
   \<and> (\<forall>fs es e. (''c'', Array_literal es) \<in> set fs \<and> e \<in> set es \<and> \<not> number_expression K e \<longrightarrow>
        expectError (new_WallData K (Some (Object_literal fs))))
   \<and> (\<forall>v. expectType ''foundry.data.WallData'' (new_WallData K (Some (Object_literal [(''c'', v)])))
        \<longleftrightarrow> (\<exists>es. v = Array_literal es \<and> length es = 4 \<and> (\<forall>e \<in> set es. number_expression K e)))
   \<and> (\<forall>x0 y0 x1 y1. expectType ''foundry.data.WallData'' (new_WallData K
        (Some (Object_literal
          [(''c'', Array_literal
              [Number_literal x0, Number_literal y0, Number_literal x1, Number_literal y1])]))))
   \<and> (\<forall>argument. expectError (new_WallData K argument)
        \<or> expectType ''foundry.data.WallData'' (new_WallData K argument))
   \<and> expectError (new_WallData K (Some (Object_literal [])))
   \<and> expectError (new_WallData K
        (Some (Object_literal [(''c'', Array_literal [Number_literal 10, Number_literal 20])])))
   \<and> expectType ''foundry.data.WallData'' (new_WallData K
        (Some (Object_literal
          [(''c'', Array_literal
              [Number_literal 10, Number_literal 20, Number_literal 30, Number_literal 40])])))"
proof -
  let ?rejected = "\<lambda>fs. expectError (new_WallData K (Some (Object_literal fs)))"
  let ?accepted = "\<lambda>fs. expectType ''foundry.data.WallData''
                          (new_WallData K (Some (Object_literal fs)))"
  let ?four_numbers = "\<lambda>v. \<exists>es. v = Array_literal es \<and> length es = 4
                                \<and> (\<forall>e \<in> set es. number_expression K e)"
  have no_argument: "expectError (new_WallData K None)"
    by (simp add: expectError_def new_WallData_def)
  have no_object: "\<forall>data. (\<forall>fs. data \<noteq> Object_literal fs) \<longrightarrow>
      expectError (new_WallData K (Some data))"
    by (simp add: expectError_new_WallData assignable_WallDataConstructorData)
  have no_c: "\<forall>fs. ''c'' \<notin> fst ` set fs \<longrightarrow> ?rejected fs"
    by (simp add: expectError_new_WallData assignable_WallDataConstructorData)
  have bad_c: "?rejected fs" if supplied: "(''c'', v) \<in> set fs" and bad: "\<not> ?four_numbers v"
    for fs v
    using supplied coordinates_type
  proof (rule rejected_property)
    from bad show "\<not> assignable K v (T_tuple [T_number, T_number, T_number, T_number])"
      by (simp add: assignable_coordinates)
  qed
  have no_array: "\<forall>fs v. (''c'', v) \<in> set fs \<and> (\<forall>es. v \<noteq> Array_literal es) \<longrightarrow> ?rejected fs"
  proof (intro allI impI)
    fix fs v
    assume a: "(''c'', v) \<in> set fs \<and> (\<forall>es. v \<noteq> Array_literal es)"
    then have "\<not> ?four_numbers v"
      by blast
    with a show "?rejected fs"
      by (blast intro: bad_c)
  qed
  have wrong_length:
    "\<forall>fs es. (''c'', Array_literal es) \<in> set fs \<and> length es \<noteq> 4 \<longrightarrow> ?rejected fs"
  proof (intro allI impI)
    fix fs es
    assume a: "(''c'', Array_literal es) \<in> set fs \<and> length es \<noteq> 4"
    then have "\<not> ?four_numbers (Array_literal es)"
      by simp
    with a show "?rejected fs"
      by (blast intro: bad_c)
  qed
  have no_number:
    "\<forall>fs es e. (''c'', Array_literal es) \<in> set fs \<and> e \<in> set es \<and> \<not> number_expression K e
       \<longrightarrow> ?rejected fs"
  proof (intro allI impI)
    fix fs es e
    assume a: "(''c'', Array_literal es) \<in> set fs \<and> e \<in> set es \<and> \<not> number_expression K e"
    then have "\<not> ?four_numbers (Array_literal es)"
      by auto
    with a show "?rejected fs"
      by (blast intro: bad_c)
  qed
  have only_c: "\<forall>v. ?accepted [(''c'', v)] \<longleftrightarrow> ?four_numbers v"
    by (simp add: expectType_new_WallData assignable_WallDataConstructorData coordinates_type
        assignable_coordinates)
  have four_numbers: "\<forall>x0 y0 x1 y1. ?accepted [(''c'', Array_literal
      [Number_literal x0, Number_literal y0, Number_literal x1, Number_literal y1])]"
    by (simp add: only_c)
  have either: "\<forall>argument. expectError (new_WallData K argument)
      \<or> expectType ''foundry.data.WallData'' (new_WallData K argument)"
    using new_WallData_cases [of K] by (simp add: expectError_def expectType_def)
  have empty_object: "?rejected []"
    by (simp add: no_c)
  have two_numbers: "?rejected [(''c'', Array_literal [Number_literal 10, Number_literal 20])]"
    using wrong_length by simp
  have test_numbers: "?accepted [(''c'', Array_literal
      [Number_literal 10, Number_literal 20, Number_literal 30, Number_literal 40])]"
    by (simp add: four_numbers)
  show ?thesis
    by (intro conjI) (fact no_argument no_object no_c no_array wrong_length no_number only_c
        four_numbers either empty_object two_numbers test_numbers)+
qed

theorem WallData_requires_coordinates_witness:
  "''c'' \<notin> fst ` set [(''move'', Number_literal 1)]
   \<and> new_WallData example_CONST (Some (Object_literal [(''move'', Number_literal 1)])) = None
   \<and> length [Number_literal 10, Number_literal 20, Number_literal 30] \<noteq> 4
   \<and> new_WallData example_CONST
        (Some (Object_literal
          [(''c'', Array_literal [Number_literal 10, Number_literal 20, Number_literal 30]),
           (''move'', Number_literal 1)])) = None
   \<and> new_WallData example_CONST
        (Some (Object_literal
          [(''c'', Array_literal
              [String_literal ''10'', Number_literal 20, Number_literal 30, Number_literal 40])]))
      = None
   \<and> new_WallData example_CONST (Some coordinates) = None
   \<and> new_WallData example_CONST
        (Some (Object_literal
          [(''c'', Array_literal
              [Number_literal (3 / 2), Number_literal (- 2), Number_literal 0, Number_literal 7])]))
      = Some ''foundry.data.WallData''"
proof -
  note general = WallData_requires_coordinates [of example_CONST]
  from general
  have no_object: "\<forall>data. (\<forall>fs. data \<noteq> Object_literal fs) \<longrightarrow>
      expectError (new_WallData example_CONST (Some data))"
    by (elim conjE)
  from general
  have no_c: "\<forall>fs. ''c'' \<notin> fst ` set fs \<longrightarrow>
      expectError (new_WallData example_CONST (Some (Object_literal fs)))"
    by (elim conjE)
  from general
  have wrong_length: "\<forall>fs es. (''c'', Array_literal es) \<in> set fs \<and> length es \<noteq> 4 \<longrightarrow>
      expectError (new_WallData example_CONST (Some (Object_literal fs)))"
    by (elim conjE)
  from general
  have no_number: "\<forall>fs es e. (''c'', Array_literal es) \<in> set fs \<and> e \<in> set es
        \<and> \<not> number_expression example_CONST e \<longrightarrow>
      expectError (new_WallData example_CONST (Some (Object_literal fs)))"
    by (elim conjE)
  from general
  have four_numbers: "\<forall>x0 y0 x1 y1. expectType ''foundry.data.WallData''
      (new_WallData example_CONST
        (Some (Object_literal
          [(''c'', Array_literal
              [Number_literal x0, Number_literal y0, Number_literal x1, Number_literal y1])])))"
    by (elim conjE)
  have absent: "''c'' \<notin> fst ` set [(''move'', Number_literal 1)]"
    by simp
  with no_c
  have first: "expectError (new_WallData example_CONST
      (Some (Object_literal [(''move'', Number_literal 1)])))"
    by blast
  have three: "length [Number_literal 10, Number_literal 20, Number_literal 30] \<noteq> 4"
    by simp
  with wrong_length [rule_format,
      of "[Number_literal 10, Number_literal 20, Number_literal 30]"
         "[(''c'', Array_literal [Number_literal 10, Number_literal 20, Number_literal 30]),
           (''move'', Number_literal 1)]"]
  have second: "expectError (new_WallData example_CONST
      (Some (Object_literal
        [(''c'', Array_literal [Number_literal 10, Number_literal 20, Number_literal 30]),
         (''move'', Number_literal 1)])))"
    by simp
  from no_number [rule_format,
      of "[String_literal ''10'', Number_literal 20, Number_literal 30, Number_literal 40]"
         "[(''c'', Array_literal
              [String_literal ''10'', Number_literal 20, Number_literal 30, Number_literal 40])]"
         "String_literal ''10''"]
  have third: "expectError (new_WallData example_CONST
      (Some (Object_literal
        [(''c'', Array_literal
            [String_literal ''10'', Number_literal 20, Number_literal 30, Number_literal 40])])))"
    by simp
  from no_object [rule_format, of coordinates]
  have fourth: "expectError (new_WallData example_CONST (Some coordinates))"
    by (simp add: coordinates_def)
  from four_numbers
  have fifth: "expectType ''foundry.data.WallData'' (new_WallData example_CONST
      (Some (Object_literal
        [(''c'', Array_literal
            [Number_literal (3 / 2), Number_literal (- 2), Number_literal 0, Number_literal 7])])))"
    by blast
  from absent first three second third fourth fifth show ?thesis
    by (simp add: expectError_def expectType_def)
qed

text \<open>
  Claim C2. When 9999 is a value of none of the wall enumerations, then for each of the
  fields \<^verbatim>\<open>move\<close>, \<^verbatim>\<open>sense\<close>, \<^verbatim>\<open>sound\<close>, \<^verbatim>\<open>dir\<close>, \<^verbatim>\<open>door\<close> and \<^verbatim>\<open>ds\<close>, constructing
  \<^verbatim>\<open>foundry.data.WallData\<close> with that field set to 9999 is a type error, although \<^verbatim>\<open>c\<close>
  is the valid tuple \<^verbatim>\<open>[10, 20, 30, 40]\<close>. In general: whatever else the object literal
  supplies, a value for one of these six fields that is neither \<^verbatim>\<open>null\<close> nor
  \<^verbatim>\<open>undefined\<close> nor a value of the field's enumeration is a type error, so in particular
  every number outside the enumeration; and next to the valid \<^verbatim>\<open>c\<close>, a number for such a
  field is a type error exactly when it is outside the field's enumeration.
\<close>

theorem WallData_rejects_9999:
  "(\<forall>f E fs v. (f, E) \<in> set enumerated_fields \<and> (f, v) \<in> set fs
        \<and> v \<noteq> Null_literal \<and> v \<noteq> Undefined_literal
        \<and> (\<forall>x. literal_value K v = Some x \<longrightarrow> x \<notin> snd ` set (enumeration K E)) \<longrightarrow>
      expectError (new_WallData K (Some (Object_literal fs))))
   \<and> (\<forall>f E fs n. (f, E) \<in> set enumerated_fields \<and> (f, Number_literal n) \<in> set fs
        \<and> Number_value n \<notin> snd ` set (enumeration K E) \<longrightarrow>
      expectError (new_WallData K (Some (Object_literal fs))))
   \<and> (\<forall>f E n. (f, E) \<in> set enumerated_fields \<longrightarrow>
      (expectError (new_WallData K
          (Some (Object_literal [(''c'', coordinates), (f, Number_literal n)])))
        \<longleftrightarrow> Number_value n \<notin> snd ` set (enumeration K E)))
   \<and> map fst enumerated_fields = [''move'', ''sense'', ''sound'', ''dir'', ''door'', ''ds'']
   \<and> ((\<forall>E \<in> {''WALL_MOVEMENT_TYPES'', ''WALL_SENSE_TYPES'', ''WALL_DIRECTIONS'',
               ''WALL_DOOR_TYPES'', ''WALL_DOOR_STATES''}.
          Number_value 9999 \<notin> snd ` set (enumeration K E)) \<longrightarrow>
       (\<forall>f \<in> {''move'', ''sense'', ''sound'', ''dir'', ''door'', ''ds''}.
          expectError (new_WallData K
            (Some (Object_literal [(''c'', coordinates), (f, Number_literal 9999)])))))"
proof -
  let ?rejected = "\<lambda>fs. expectError (new_WallData K (Some (Object_literal fs)))"
  have outside: "?rejected fs"
    if field: "(f, E) \<in> set enumerated_fields" and supplied: "(f, v) \<in> set fs"
      and other: "v \<noteq> Null_literal \<and> v \<noteq> Undefined_literal
        \<and> (\<forall>x. literal_value K v = Some x \<longrightarrow> x \<notin> snd ` set (enumeration K E))"
    for f E fs v
    using supplied enumerated_field_type [OF field]
  proof (rule rejected_property)
    from other show "\<not> assignable K v (T_union [T_CONST E, T_null, T_undefined])"
      unfolding assignable_enumerated by blast
  qed
  have general: "\<forall>f E fs v. (f, E) \<in> set enumerated_fields \<and> (f, v) \<in> set fs
        \<and> v \<noteq> Null_literal \<and> v \<noteq> Undefined_literal
        \<and> (\<forall>x. literal_value K v = Some x \<longrightarrow> x \<notin> snd ` set (enumeration K E)) \<longrightarrow>
      ?rejected fs"
    using outside by blast
  have numbers: "\<forall>f E fs n. (f, E) \<in> set enumerated_fields \<and> (f, Number_literal n) \<in> set fs
        \<and> Number_value n \<notin> snd ` set (enumeration K E) \<longrightarrow> ?rejected fs"
  proof (intro allI impI)
    fix f E fs n
    assume a: "(f, E) \<in> set enumerated_fields \<and> (f, Number_literal n) \<in> set fs
        \<and> Number_value n \<notin> snd ` set (enumeration K E)"
    then have "Number_literal n \<noteq> Null_literal \<and> Number_literal n \<noteq> Undefined_literal
        \<and> (\<forall>x. literal_value K (Number_literal n) = Some x \<longrightarrow>
              x \<notin> snd ` set (enumeration K E))"
      by simp
    with a show "?rejected fs"
      by (blast intro: outside)
  qed
  have next_to_c: "?rejected [(''c'', coordinates), (f, Number_literal n)]
      \<longleftrightarrow> Number_value n \<notin> snd ` set (enumeration K E)"
    if field: "(f, E) \<in> set enumerated_fields" for f E n
  proof
    assume "?rejected [(''c'', coordinates), (f, Number_literal n)]"
    show "Number_value n \<notin> snd ` set (enumeration K E)"
    proof
      assume inside: "Number_value n \<in> snd ` set (enumeration K E)"
      have "expectType ''foundry.data.WallData''
          (new_WallData K (Some (Object_literal [(''c'', coordinates), (f, Number_literal n)])))"
      proof (rule well_supplied_accepted)
        show "''c'' \<in> fst ` set [(''c'', coordinates), (f, Number_literal n)]"
          by simp
        from field inside
        show "\<forall>f' v. (f', v) \<in> set [(''c'', coordinates), (f, Number_literal n)] \<longrightarrow>
          (f' = ''c'' \<and> (\<exists>es. v = Array_literal es \<and> length es = 4
                            \<and> (\<forall>e \<in> set es. number_expression K e)))
          \<or> (\<exists>E x. (f', E) \<in> set enumerated_fields \<and> literal_value K v = Some x
                    \<and> x \<in> snd ` set (enumeration K E))
          \<or> (f' = ''flags'' \<and> (\<exists>properties. v = Object_literal properties))"
          by (auto simp: coordinates_def)
      qed
      with \<open>?rejected [(''c'', coordinates), (f, Number_literal n)]\<close> show False
        by (simp add: expectError_def expectType_def)
    qed
  next
    assume "Number_value n \<notin> snd ` set (enumeration K E)"
    with field
    have "(f, E) \<in> set enumerated_fields
        \<and> (f, Number_literal n) \<in> set [(''c'', coordinates), (f, Number_literal n)]
        \<and> Number_value n \<notin> snd ` set (enumeration K E)"
      by simp
    with numbers show "?rejected [(''c'', coordinates), (f, Number_literal n)]"
      by blast
  qed
  then have exactly: "\<forall>f E n. (f, E) \<in> set enumerated_fields \<longrightarrow>
      (?rejected [(''c'', coordinates), (f, Number_literal n)]
        \<longleftrightarrow> Number_value n \<notin> snd ` set (enumeration K E))"
    by blast
  have names: "map fst enumerated_fields = [''move'', ''sense'', ''sound'', ''dir'', ''door'', ''ds'']"
    by (simp add: enumerated_fields_def)
  have test: "(\<forall>E \<in> {''WALL_MOVEMENT_TYPES'', ''WALL_SENSE_TYPES'', ''WALL_DIRECTIONS'',
               ''WALL_DOOR_TYPES'', ''WALL_DOOR_STATES''}.
          Number_value 9999 \<notin> snd ` set (enumeration K E)) \<longrightarrow>
       (\<forall>f \<in> {''move'', ''sense'', ''sound'', ''dir'', ''door'', ''ds''}.
          ?rejected [(''c'', coordinates), (f, Number_literal 9999)])"
  proof
    assume out: "\<forall>E \<in> {''WALL_MOVEMENT_TYPES'', ''WALL_SENSE_TYPES'', ''WALL_DIRECTIONS'',
               ''WALL_DOOR_TYPES'', ''WALL_DOOR_STATES''}.
          Number_value 9999 \<notin> snd ` set (enumeration K E)"
    have "?rejected [(''c'', coordinates), (''move'', Number_literal 9999)]"
      using out next_to_c [of "''move''" "''WALL_MOVEMENT_TYPES''" 9999]
      by (simp add: enumerated_fields_def)
    moreover have "?rejected [(''c'', coordinates), (''sense'', Number_literal 9999)]"
      using out next_to_c [of "''sense''" "''WALL_SENSE_TYPES''" 9999]
      by (simp add: enumerated_fields_def)
    moreover have "?rejected [(''c'', coordinates), (''sound'', Number_literal 9999)]"
      using out next_to_c [of "''sound''" "''WALL_SENSE_TYPES''" 9999]
      by (simp add: enumerated_fields_def)
    moreover have "?rejected [(''c'', coordinates), (''dir'', Number_literal 9999)]"
      using out next_to_c [of "''dir''" "''WALL_DIRECTIONS''" 9999]
      by (simp add: enumerated_fields_def)
    moreover have "?rejected [(''c'', coordinates), (''door'', Number_literal 9999)]"
      using out next_to_c [of "''door''" "''WALL_DOOR_TYPES''" 9999]
      by (simp add: enumerated_fields_def)
    moreover have "?rejected [(''c'', coordinates), (''ds'', Number_literal 9999)]"
      using out next_to_c [of "''ds''" "''WALL_DOOR_STATES''" 9999]
      by (simp add: enumerated_fields_def)
    ultimately
    show "\<forall>f \<in> {''move'', ''sense'', ''sound'', ''dir'', ''door'', ''ds''}.
          ?rejected [(''c'', coordinates), (f, Number_literal 9999)]"
      by simp
  qed
  show ?thesis
    by (intro conjI) (fact general numbers exactly names test)+
qed

theorem WallData_rejects_9999_witness:
  "Number_value 9999 \<notin> snd ` set (enumeration example_CONST ''WALL_MOVEMENT_TYPES'')
   \<and> Number_value 9999 \<notin> snd ` set (enumeration example_CONST ''WALL_SENSE_TYPES'')
   \<and> Number_value 9999 \<notin> snd ` set (enumeration example_CONST ''WALL_DIRECTIONS'')
   \<and> Number_value 9999 \<notin> snd ` set (enumeration example_CONST ''WALL_DOOR_TYPES'')
   \<and> Number_value 9999 \<notin> snd ` set (enumeration example_CONST ''WALL_DOOR_STATES'')
   \<and> new_WallData example_CONST
        (Some (Object_literal [(''c'', coordinates), (''move'', Number_literal 9999)])) = None
   \<and> new_WallData example_CONST
        (Some (Object_literal [(''c'', coordinates), (''ds'', Number_literal 9999)])) = None
   \<and> Number_value 2 \<notin> snd ` set (enumeration example_CONST ''WALL_MOVEMENT_TYPES'')
   \<and> new_WallData example_CONST
        (Some (Object_literal
          [(''move'', Number_literal 2), (''c'', coordinates), (''flags'', Object_literal [])]))
      = None
   \<and> new_WallData example_CONST
        (Some (Object_literal [(''c'', coordinates), (''sense'', Number_literal 2)]))
      = Some ''foundry.data.WallData''"
proof -
  note general = WallData_rejects_9999 [of example_CONST]
  have each:
    "Number_value 9999 \<notin> snd ` set (enumeration example_CONST ''WALL_MOVEMENT_TYPES'')
     \<and> Number_value 9999 \<notin> snd ` set (enumeration example_CONST ''WALL_SENSE_TYPES'')
     \<and> Number_value 9999 \<notin> snd ` set (enumeration example_CONST ''WALL_DIRECTIONS'')
     \<and> Number_value 9999 \<notin> snd ` set (enumeration example_CONST ''WALL_DOOR_TYPES'')
     \<and> Number_value 9999 \<notin> snd ` set (enumeration example_CONST ''WALL_DOOR_STATES'')"
    by (auto simp: enumeration_def example_CONST_def)
  then have outside:
    "\<forall>E \<in> {''WALL_MOVEMENT_TYPES'', ''WALL_SENSE_TYPES'', ''WALL_DIRECTIONS'',
            ''WALL_DOOR_TYPES'', ''WALL_DOOR_STATES''}.
       Number_value 9999 \<notin> snd ` set (enumeration example_CONST E)"
    by blast
  from general
  have "(\<forall>E \<in> {''WALL_MOVEMENT_TYPES'', ''WALL_SENSE_TYPES'', ''WALL_DIRECTIONS'',
               ''WALL_DOOR_TYPES'', ''WALL_DOOR_STATES''}.
          Number_value 9999 \<notin> snd ` set (enumeration example_CONST E)) \<longrightarrow>
       (\<forall>f \<in> {''move'', ''sense'', ''sound'', ''dir'', ''door'', ''ds''}.
          expectError (new_WallData example_CONST
            (Some (Object_literal [(''c'', coordinates), (f, Number_literal 9999)]))))"
    by (elim conjE)
  with outside
  have test: "\<forall>f \<in> {''move'', ''sense'', ''sound'', ''dir'', ''door'', ''ds''}.
          expectError (new_WallData example_CONST
            (Some (Object_literal [(''c'', coordinates), (f, Number_literal 9999)])))"
    by (rule mp [rotated])
  then have move: "expectError (new_WallData example_CONST
          (Some (Object_literal [(''c'', coordinates), (''move'', Number_literal 9999)])))"
    and ds: "expectError (new_WallData example_CONST
          (Some (Object_literal [(''c'', coordinates), (''ds'', Number_literal 9999)])))"
    by blast+
  have two: "Number_value 2 \<notin> snd ` set (enumeration example_CONST ''WALL_MOVEMENT_TYPES'')"
    by (auto simp: enumeration_def example_CONST_def)
  from general
  have numbers: "\<forall>f E fs n. (f, E) \<in> set enumerated_fields \<and> (f, Number_literal n) \<in> set fs
        \<and> Number_value n \<notin> snd ` set (enumeration example_CONST E) \<longrightarrow>
      expectError (new_WallData example_CONST (Some (Object_literal fs)))"
    by (elim conjE)
  from numbers [rule_format, of "''move''" "''WALL_MOVEMENT_TYPES''" 2
      "[(''move'', Number_literal 2), (''c'', coordinates), (''flags'', Object_literal [])]"] two
  have elsewhere: "expectError (new_WallData example_CONST
        (Some (Object_literal
          [(''move'', Number_literal 2), (''c'', coordinates), (''flags'', Object_literal [])])))"
    by (simp add: enumerated_fields_def)
  from general
  have exactly: "\<forall>f E n. (f, E) \<in> set enumerated_fields \<longrightarrow>
      (expectError (new_WallData example_CONST
          (Some (Object_literal [(''c'', coordinates), (f, Number_literal n)])))
        \<longleftrightarrow> Number_value n \<notin> snd ` set (enumeration example_CONST E))"
    by (elim conjE)
  have "Number_value 2 \<in> snd ` set (enumeration example_CONST ''WALL_SENSE_TYPES'')"
    by (simp add: enumeration_def example_CONST_def)
  with exactly [rule_format, of "''sense''" "''WALL_SENSE_TYPES''" 2]
  have "\<not> expectError (new_WallData example_CONST
          (Some (Object_literal [(''c'', coordinates), (''sense'', Number_literal 2)])))"
    by (simp add: enumerated_fields_def)
  with new_WallData_cases [of example_CONST
      "Some (Object_literal [(''c'', coordinates), (''sense'', Number_literal 2)])"]
  have accepted: "new_WallData example_CONST
        (Some (Object_literal [(''c'', coordinates), (''sense'', Number_literal 2)]))
      = Some ''foundry.data.WallData''"
    by (auto simp: expectError_def)
  from each move ds two elsewhere accepted show ?thesis
    by (simp add: expectError_def)
qed



text \<open>
  The remaining two assertions of the test file: every field but \<^verbatim>\<open>c\<close> may be \<^verbatim>\<open>null\<close>,
  and every field but \<^verbatim>\<open>c\<close> may be \<^verbatim>\<open>undefined\<close>.
\<close>

lemma WallData_accepts_null_and_undefined:
  "expectType ''foundry.data.WallData'' (new_WallData K
     (Some (Object_literal
       [(''_id'', Null_literal), (''c'', coordinates), (''move'', Null_literal),
        (''sense'', Null_literal), (''sound'', Null_literal), (''dir'', Null_literal),
        (''door'', Null_literal), (''ds'', Null_literal), (''flags'', Null_literal)])))
   \<and> expectType ''foundry.data.WallData'' (new_WallData K
     (Some (Object_literal
       [(''_id'', Undefined_literal), (''c'', coordinates), (''move'', Undefined_literal),
        (''sense'', Undefined_literal), (''sound'', Undefined_literal),
        (''dir'', Undefined_literal), (''door'', Undefined_literal),
        (''ds'', Undefined_literal), (''flags'', Undefined_literal)])))"
  by (simp add: expectType_def new_WallData_def WallDataConstructorData_def coordinates_def)

end
